theory Spec2Isabelle
  imports Main "HOL-Library.Sublist" "HOL-Library.Word"
begin

section \<open>Serial monitor for the Daisy Seed (monitor_serial.py)\<close>

text \<open>
  The script enumerates the serial ports of the machine, picks one by keyword, opens it
  and prints the lines it receives until it is interrupted. Everything the platform
  does (the port enumeration, the outcome of opening the port, what arrives on the
  wire, a Ctrl-C) is an explicit input of the model; what the script does to the
  outside (lines printed, the connection, enumerations made) is an explicit state.
\<close>

subsection \<open>Strings\<close>

text \<open>
  Device paths, descriptions and command line arguments are \<^typ>\<open>string\<close>: lists of
  characters with code points below 256. On that range \<^verbatim>\<open>str.lower()\<close> maps
  \<^verbatim>\<open>A-Z\<close> and the Latin-1 capitals (192 to 222 except the multiplication sign 215) to
  the code point 32 above, and leaves every other character as it is.
\<close>

definition lower_char :: "char \<Rightarrow> char" where
  "lower_char c =
     (let n = (of_char c :: nat)
      in if (65 \<le> n \<and> n \<le> 90) \<or> (192 \<le> n \<and> n \<le> 222 \<and> n \<noteq> 215)
         then char_of (n + 32) else c)"

definition lower :: "string \<Rightarrow> string" where
  "lower s = map lower_char s"

text \<open>\<^verbatim>\<open>keyword in text\<close> on strings: the keyword occurs as a contiguous substring.\<close>

definition py_in :: "string \<Rightarrow> string \<Rightarrow> bool" where
  "py_in keyword s = sublist keyword s"

subsection \<open>Port descriptors and auto-detection\<close>

text \<open>One entry of \<^verbatim>\<open>serial.tools.list_ports.comports()\<close>.\<close>

record port_info =
  device :: string
  description :: string

definition daisy_keywords :: "string list" where
  "daisy_keywords = [''daisy'', ''seed'', ''stm'', ''usbmodem'', ''usbserial'', ''SLAB'']"

text \<open>
  The inner loop of \<^verbatim>\<open>find_daisy_port\<close>: some keyword of the list occurs in the
  lowercased description or in the lowercased device path.
\<close>

definition keyword_hit :: "port_info \<Rightarrow> bool" where
  "keyword_hit port =
     (let desc_lower = lower (description port);
          device_lower = lower (device port)
      in list_ex (\<lambda>keyword. py_in keyword desc_lower \<or> py_in keyword device_lower)
           daisy_keywords)"

text \<open>
  \<^verbatim>\<open>find_daisy_port\<close>, as a function of the list \<^verbatim>\<open>comports()\<close> returned: the device
  path of the first port with a keyword hit, \<open>None\<close> when the loop runs off the list.
\<close>

fun find_daisy_port :: "port_info list \<Rightarrow> string option" where
  "find_daisy_port [] = None"
| "find_daisy_port (port # ports) =
     (if keyword_hit port then Some (device port) else find_daisy_port ports)"

text \<open>
  The specification's reading of a match, for comparison with \<^const>\<open>keyword_hit\<close>:
  a text contains a keyword under case-insensitive comparison when the lowercased
  keyword occurs in the lowercased text.
\<close>

definition contains_ci :: "string \<Rightarrow> string \<Rightarrow> bool" where
  "contains_ci keyword s = py_in (lower keyword) (lower s)"

definition mentions_keyword :: "port_info \<Rightarrow> bool" where
  "mentions_keyword port =
     list_ex (\<lambda>keyword. contains_ci keyword (description port) \<or> contains_ci keyword (device port))
       daisy_keywords"

subsection \<open>Decoding a line\<close>

text \<open>
  \<^verbatim>\<open>readline()\<close> returns bytes; \<^verbatim>\<open>.decode('utf-8', errors='ignore')\<close> turns them
  into a Python string, a sequence of code points. The decoder is the one of the
  language: it reads one to four bytes per character, accepts exactly the well-formed
  sequences (no overlong forms, no surrogates, nothing above U+10FFFF), and on a
  malformed sequence hands the offending bytes to the error handler: an invalid start
  byte alone, a truncated character up to (not including) the byte that cannot continue
  it, an incomplete character at the end of the data up to the end. With
  \<^verbatim>\<open>errors='strict'\<close> the handler raises \<^verbatim>\<open>UnicodeDecodeError\<close>; with
  \<^verbatim>\<open>errors='ignore'\<close> it drops those bytes and decoding resumes after them.
\<close>

type_synonym byte = "8 word"

type_synonym str = "nat list"

datatype errors = Strict | Ignore

datatype decode_error = UnicodeDecodeError

definition is_continuation :: "byte \<Rightarrow> bool" where
  "is_continuation b \<longleftrightarrow> 0x80 \<le> b \<and> b < 0xC0"

definition second_of_three :: "byte \<Rightarrow> byte \<Rightarrow> bool" where
  "second_of_three b0 b1 \<longleftrightarrow>
     is_continuation b1 \<and> \<not> (if b1 < 0xA0 then b0 = 0xE0 else b0 = 0xED)"

definition second_of_four :: "byte \<Rightarrow> byte \<Rightarrow> bool" where
  "second_of_four b0 b1 \<longleftrightarrow>
     is_continuation b1 \<and> \<not> (if b1 < 0x90 then b0 = 0xF0 else b0 = 0xF4)"

definition code_point2 :: "byte \<Rightarrow> byte \<Rightarrow> nat" where
  "code_point2 b0 b1 = unat b0 * 64 + unat b1 - (0xC0 * 64 + 0x80)"

definition code_point3 :: "byte \<Rightarrow> byte \<Rightarrow> byte \<Rightarrow> nat" where
  "code_point3 b0 b1 b2 =
     unat b0 * 4096 + unat b1 * 64 + unat b2 - (0xE0 * 4096 + 0x80 * 64 + 0x80)"

definition code_point4 :: "byte \<Rightarrow> byte \<Rightarrow> byte \<Rightarrow> byte \<Rightarrow> nat" where
  "code_point4 b0 b1 b2 b3 =
     unat b0 * 262144 + unat b1 * 4096 + unat b2 * 64 + unat b3
       - (0xF0 * 262144 + 0x80 * 4096 + 0x80 * 64 + 0x80)"

text \<open>A decoded character goes in front of what the rest of the data decodes to.\<close>

definition emit :: "nat \<Rightarrow> decode_error + str \<Rightarrow> decode_error + str" where
  "emit c rest = (case rest of Inl e \<Rightarrow> Inl e | Inr t \<Rightarrow> Inr (c # t))"

text \<open>The error handler: \<open>rest\<close> is the decoding of the data after the dropped bytes.\<close>

definition on_error :: "errors \<Rightarrow> decode_error + str \<Rightarrow> decode_error + str" where
  "on_error h rest = (case h of Strict \<Rightarrow> Inl UnicodeDecodeError | Ignore \<Rightarrow> rest)"

fun decode_utf8 :: "errors \<Rightarrow> byte list \<Rightarrow> decode_error + str" where
  "decode_utf8 h [] = Inr []"
| "decode_utf8 h (b0 # bs) =
     (if b0 < 0x80 then emit (unat b0) (decode_utf8 h bs)
      else if b0 < 0xC2 \<or> 0xF5 \<le> b0 then on_error h (decode_utf8 h bs)
      else if b0 < 0xE0 then
        (case bs of
           [] \<Rightarrow> on_error h (Inr [])
         | b1 # r1 \<Rightarrow>
             if is_continuation b1 then emit (code_point2 b0 b1) (decode_utf8 h r1)
             else on_error h (decode_utf8 h bs))
      else if b0 < 0xF0 then
        (case bs of
           [] \<Rightarrow> on_error h (Inr [])
         | b1 # r1 \<Rightarrow>
             if \<not> second_of_three b0 b1 then on_error h (decode_utf8 h bs)
             else
               (case r1 of
                  [] \<Rightarrow> on_error h (Inr [])
                | b2 # r2 \<Rightarrow>
                    if is_continuation b2 then emit (code_point3 b0 b1 b2) (decode_utf8 h r2)
                    else on_error h (decode_utf8 h r1)))
      else
        (case bs of
           [] \<Rightarrow> on_error h (Inr [])
         | b1 # r1 \<Rightarrow>
             if \<not> second_of_four b0 b1 then on_error h (decode_utf8 h bs)
             else
               (case r1 of
                  [] \<Rightarrow> on_error h (Inr [])
                | b2 # r2 \<Rightarrow>
                    if \<not> is_continuation b2 then on_error h (decode_utf8 h r1)
                    else
                      (case r2 of
                         [] \<Rightarrow> on_error h (Inr [])
                       | b3 # r3 \<Rightarrow>
                           if is_continuation b3
                           then emit (code_point4 b0 b1 b2 b3) (decode_utf8 h r3)
                           else on_error h (decode_utf8 h r2)))))"

text \<open>Valid UTF-8 text: data the strict decoder accepts.\<close>

definition valid_utf8 :: "byte list \<Rightarrow> bool" where
  "valid_utf8 bs = (case decode_utf8 Strict bs of Inl e \<Rightarrow> False | Inr t \<Rightarrow> True)"

text \<open>
  \<^verbatim>\<open>str.strip()\<close> removes the leading and the trailing whitespace; whitespace is
  what \<^verbatim>\<open>str.isspace()\<close> accepts.
\<close>

definition py_isspace :: "nat \<Rightarrow> bool" where
  "py_isspace c \<longleftrightarrow>
     (0x09 \<le> c \<and> c \<le> 0x0D) \<or> (0x1C \<le> c \<and> c \<le> 0x20) \<or> c = 0x85 \<or> c = 0xA0
     \<or> c = 0x1680 \<or> (0x2000 \<le> c \<and> c \<le> 0x200A) \<or> c = 0x2028 \<or> c = 0x2029
     \<or> c = 0x202F \<or> c = 0x205F \<or> c = 0x3000"

definition strip :: "str \<Rightarrow> str" where
  "strip t = rev (dropWhile py_isspace (rev (dropWhile py_isspace t)))"

subsection \<open>What the script does to the outside\<close>

text \<open>
  \<open>stdout\<close> holds the printed lines, one entry per \<^verbatim>\<open>print\<close> call, oldest first.
  \<open>ser\<close> is the local variable of \<^verbatim>\<open>monitor_serial\<close>: \<open>None\<close> while it is unbound,
  \<open>Some b\<close> once the connection object exists, \<open>b\<close> being its \<^verbatim>\<open>is_open\<close>.
  \<open>enumerations\<close> counts the calls of \<^verbatim>\<open>comports()\<close>.
\<close>

record state =
  stdout :: "str list"
  ser :: "bool option"
  enumerations :: nat

definition initial :: state where
  "initial = \<lparr>stdout = [], ser = None, enumerations = 0\<rparr>"

text \<open>A string of the script as the code points it is made of.\<close>

definition str_of :: "string \<Rightarrow> str" where
  "str_of s = map of_char s"

definition print :: "string \<Rightarrow> state \<Rightarrow> state" where
  "print line s = s\<lparr>stdout := stdout s @ [str_of line]\<rparr>"

definition prints :: "string list \<Rightarrow> state \<Rightarrow> state" where
  "prints lines s = fold print lines s"

text \<open>The decimal digits of a number, as an f-string writes it.\<close>

fun decimal :: "nat \<Rightarrow> string" where
  "decimal n =
     (if n < 10 then [char_of (48 + n)] else decimal (n div 10) @ [char_of (48 + n mod 10)])"

declare decimal.simps [simp del]

text \<open>\<^verbatim>\<open>{port.device:20}\<close>: left-justified in a field of at least 20 characters.\<close>

definition ljust :: "nat \<Rightarrow> string \<Rightarrow> string" where
  "ljust width s = s @ replicate (width - length s) CHR '' ''"

definition BAUD_RATE :: nat where
  "BAUD_RATE = 115200"

definition newline :: char where
  "newline = CHR 0x0A"

subsection \<open>The monitor\<close>

text \<open>
  What the platform can raise into the script: \<^verbatim>\<open>serial.SerialException\<close>, the
  \<^verbatim>\<open>KeyboardInterrupt\<close> of a Ctrl-C, or some other exception deriving from
  \<^verbatim>\<open>Exception\<close>; the string is \<^verbatim>\<open>str(e)\<close>.
\<close>

datatype fault = SerialException string | KeyboardInterrupt | OtherException string

text \<open>
  One turn of the monitor loop, as the platform decides it: nothing is waiting
  (\<^verbatim>\<open>in_waiting\<close> is 0) and the sleep returns; bytes are waiting, \<^verbatim>\<open>readline()\<close>
  returns them and the sleep returns; or a call of the turn (\<^verbatim>\<open>in_waiting\<close>,
  \<^verbatim>\<open>readline\<close>, \<^verbatim>\<open>sleep\<close>, and before the first turn \<^verbatim>\<open>reset_input_buffer\<close>)
  raises. Printing is taken to succeed.
\<close>

datatype poll = Idle | Readline "byte list" | Raises fault

text \<open>An exception that leaves the script uncaught.\<close>

datatype uncaught = UnboundLocalError

text \<open>
  How a run ends: \<open>None\<close> while the loop is still turning, \<open>Some (Inr code)\<close> when
  the function returns \<open>code\<close>, \<open>Some (Inl e)\<close> when \<open>e\<close> propagates out of it.
\<close>

type_synonym ending = "(uncaught + int) option"

text \<open>Lines 69 to 75: the inner \<^verbatim>\<open>try\<close> with its handler.\<close>

definition read_line :: "byte list \<Rightarrow> state \<Rightarrow> state" where
  "read_line bs s =
     (case decode_utf8 Ignore bs of
        Inl UnicodeDecodeError \<Rightarrow> s
      | Inr decoded \<Rightarrow>
          (let line = strip decoded
           in if line \<noteq> [] then s\<lparr>stdout := stdout s @ [line]\<rparr> else s))"

text \<open>
  The \<^verbatim>\<open>while True\<close> loop: it leaves only by an exception. \<open>None\<close> says that the
  turns given are used up and the loop is still running.
\<close>

fun monitor_loop :: "poll list \<Rightarrow> state \<Rightarrow> fault option \<times> state" where
  "monitor_loop [] s = (None, s)"
| "monitor_loop (Idle # turns) s = monitor_loop turns s"
| "monitor_loop (Readline bs # turns) s = monitor_loop turns (read_line bs s)"
| "monitor_loop (Raises e # turns) s = (Some e, s)"

definition banner :: "string \<Rightarrow> state \<Rightarrow> state" where
  "banner port_name s =
     prints
       [replicate 60 CHR ''='',
        ''Daisy Seed Serial Monitor'',
        replicate 60 CHR ''='',
        ''Port: '' @ port_name,
        ''Baud Rate: '' @ decimal BAUD_RATE,
        ''Press Ctrl+C to exit'',
        replicate 60 CHR ''='',
        []]
       s"

text \<open>The three \<^verbatim>\<open>except\<close> clauses of \<^verbatim>\<open>monitor_serial\<close>, in the order of the source.\<close>

fun handler :: "fault \<Rightarrow> state \<Rightarrow> ending \<times> state" where
  "handler (SerialException e) s =
     (Some (Inr 1),
      prints
        [''Error opening serial port: '' @ e,
         newline # ''Make sure:'',
         ''  1. Daisy Seed is connected via USB'',
         ''  2. Daisy Seed is NOT in bootloader/DFU mode'',
         ''  3. No other program is using the serial port'']
        s)"
| "handler KeyboardInterrupt s =
     (let s1 = print (newline # newline # ''Monitoring stopped.'') s
      in case ser s1 of
           None \<Rightarrow> (Some (Inl UnboundLocalError), s1)
         | Some is_open \<Rightarrow>
             (Some (Inr 0), if is_open then s1\<lparr>ser := Some False\<rparr> else s1))"
| "handler (OtherException e) s = (Some (Inr 1), print (''Unexpected error: '' @ e) s)"

text \<open>
  \<^verbatim>\<open>monitor_serial(port_name)\<close>. \<open>opening\<close> is the outcome of \<^verbatim>\<open>serial.Serial(...)\<close>:
  \<open>None\<close> when the port opens, \<open>Some e\<close> when the call raises \<open>e\<close>, which leaves
  \<^verbatim>\<open>ser\<close> unbound.
\<close>

definition monitor_serial :: "string \<Rightarrow> fault option \<Rightarrow> poll list \<Rightarrow> state \<Rightarrow> ending \<times> state" where
  "monitor_serial port_name opening turns s =
     (let s0 = s\<lparr>ser := None\<rparr>
      in case opening of
           Some e \<Rightarrow> handler e s0
         | None \<Rightarrow>
             (case monitor_loop turns (banner port_name (s0\<lparr>ser := Some True\<rparr>)) of
                (None, s1) \<Rightarrow> (None, s1)
              | (Some e, s1) \<Rightarrow> handler e s1))"

subsection \<open>The program\<close>

text \<open>
  What the platform presents to one run: the two port enumerations (the first made by
  \<^verbatim>\<open>find_daisy_port\<close>, the second by \<^verbatim>\<open>list_available_ports\<close>), the outcome of opening
  the port, and the turns of the monitor loop.
\<close>

record world =
  first_scan :: "port_info list"
  second_scan :: "port_info list"
  port_opening :: "fault option"
  loop_turns :: "poll list"

definition port_row :: "port_info \<Rightarrow> string" where
  "port_row port = ''  '' @ ljust 20 (device port) @ '' - '' @ description port"

definition list_available_ports :: "port_info list \<Rightarrow> state \<Rightarrow> string list \<times> state" where
  "list_available_ports ports s =
     (map device ports,
      prints
        ([newline # ''Available serial ports:'', replicate 60 CHR ''-'']
         @ map port_row ports
         @ [replicate 60 CHR ''-''])
        (s\<lparr>enumerations := Suc (enumerations s)\<rparr>))"

text \<open>Lines 103 to 117: no port was detected.\<close>

definition not_detected :: "string \<Rightarrow> port_info list \<Rightarrow> state \<Rightarrow> ending \<times> state" where
  "not_detected prog ports s =
     (let s1 = print ''Could not auto-detect Daisy Seed port.'' s;
          (available, s2) = list_available_ports ports s1
      in case available of
           [] \<Rightarrow>
             (Some (Inr 1),
              prints
                [newline # ''No serial ports found!'',
                 newline # ''Make sure:'',
                 ''  1. Daisy Seed is connected via USB'',
                 ''  2. Daisy Seed is NOT in bootloader/DFU mode'',
                 ''  3. Daisy Seed firmware is running'']
                s2)
         | first # others \<Rightarrow>
             (Some (Inr 1),
              prints
                [newline # ''Please specify the port manually:'',
                 ''  python3 '' @ prog @ '' <port_name>'',
                 newline # ''Example:'',
                 ''  python3 '' @ prog @ '' '' @ first]
                s2))"

text \<open>
  \<^verbatim>\<open>main()\<close>, with \<^verbatim>\<open>sys.argv = prog # args\<close>. \<^verbatim>\<open>not port\<close> holds for \<open>None\<close> and
  for the empty string.
\<close>

definition main :: "string \<Rightarrow> string list \<Rightarrow> world \<Rightarrow> ending \<times> state" where
  "main prog args w =
     (case args of
        port # others \<Rightarrow> monitor_serial port (port_opening w) (loop_turns w) initial
      | [] \<Rightarrow>
          (let s1 = print ''Searching for Daisy Seed...'' initial;
               s2 = s1\<lparr>enumerations := Suc (enumerations s1)\<rparr>
           in case find_daisy_port (first_scan w) of
                None \<Rightarrow> not_detected prog (second_scan w) s2
              | Some port \<Rightarrow>
                  if port = [] then not_detected prog (second_scan w) s2
                  else monitor_serial port (port_opening w) (loop_turns w)
                         (print (''Found port: '' @ port) s2)))"

section \<open>Properties\<close>

subsection \<open>Lowercasing\<close>

lemma of_char_lower_char_not_upper:
  "\<not> (65 \<le> (of_char (lower_char c) :: nat) \<and> (of_char (lower_char c) :: nat) \<le> 90)"
proof -
  have "(of_char c :: nat) < 256" by simp
  then show ?thesis
    by (auto simp: lower_char_def Let_def)
qed

lemma upper_S_not_in_lower: "CHR ''S'' \<notin> set (lower s)"
proof
  assume "CHR ''S'' \<in> set (lower s)"
  then obtain c where "lower_char c = CHR ''S''"
    by (auto simp: lower_def)
  then have "(of_char (lower_char c) :: nat) = 83" by simp
  with of_char_lower_char_not_upper [of c] show False by simp
qed

lemma SLAB_never_in_lower: "\<not> py_in ''SLAB'' (lower s)"
proof
  assume "py_in ''SLAB'' (lower s)"
  then have "set ''SLAB'' \<subseteq> set (lower s)"
    unfolding py_in_def by (rule set_mono_sublist)
  then have "CHR ''S'' \<in> set (lower s)" by simp
  with upper_S_not_in_lower show False by blast
qed

lemma lower_keywords:
  "lower ''daisy'' = ''daisy''" "lower ''seed'' = ''seed''" "lower ''stm'' = ''stm''"
  "lower ''usbmodem'' = ''usbmodem''" "lower ''usbserial'' = ''usbserial''"
  by (simp_all add: lower_def lower_char_def)

lemma keyword_hit_imp_mentions: "keyword_hit port \<Longrightarrow> mentions_keyword port"
  unfolding keyword_hit_def mentions_keyword_def contains_ci_def daisy_keywords_def Let_def
  by (auto simp add: lower_keywords SLAB_never_in_lower)

subsection \<open>Auto-detection\<close>

lemma find_daisy_port_None_iff:
  "find_daisy_port ports = None \<longleftrightarrow> list_all (\<lambda>p. \<not> keyword_hit p) ports"
  by (induction ports) auto

text \<open>
  Claim C4. When no descriptor of the enumeration contains a configured keyword in its
  description or its device path (compared without regard to case), and in particular
  when the enumeration is empty, \<^verbatim>\<open>find_daisy_port\<close> returns \<open>None\<close>.
\<close>

theorem find_daisy_port_no_match:
  assumes "\<forall>port \<in> set ports. \<not> mentions_keyword port"
  shows "find_daisy_port ports = None"
  using assms
proof (induction ports)
  case Nil
  show ?case by simp
next
  case (Cons port ports)
  from Cons.prems have "\<not> mentions_keyword port" by simp
  then have "\<not> keyword_hit port"
    using keyword_hit_imp_mentions by blast
  moreover from Cons have "find_daisy_port ports = None" by simp
  ultimately show ?case by simp
qed

theorem find_daisy_port_no_match_witness:
  "\<not> mentions_keyword \<lparr>device = ''/dev/ttyS0'', description = ''n/a''\<rparr>
   \<and> \<not> mentions_keyword
         \<lparr>device = ''/dev/cu.Bluetooth-Incoming-Port'', description = ''n/a''\<rparr>
   \<and> find_daisy_port
         [\<lparr>device = ''/dev/ttyS0'', description = ''n/a''\<rparr>,
          \<lparr>device = ''/dev/cu.Bluetooth-Incoming-Port'', description = ''n/a''\<rparr>] = None"
proof -
  have a: "\<not> mentions_keyword \<lparr>device = ''/dev/ttyS0'', description = ''n/a''\<rparr>"
    by code_simp
  have b: "\<not> mentions_keyword
             \<lparr>device = ''/dev/cu.Bluetooth-Incoming-Port'', description = ''n/a''\<rparr>"
    by code_simp
  from a b
    find_daisy_port_no_match
      [of "[\<lparr>device = ''/dev/ttyS0'', description = ''n/a''\<rparr>,
            \<lparr>device = ''/dev/cu.Bluetooth-Incoming-Port'', description = ''n/a''\<rparr>]"]
  show ?thesis by simp
qed

text \<open>
  What the loop of \<^verbatim>\<open>find_daisy_port\<close> returns in general: the device path of the
  first port for which the keyword test of the code succeeds.
\<close>

lemma find_daisy_port_first_hit:
  "find_daisy_port ports =
     (case filter keyword_hit ports of [] \<Rightarrow> None | port # others \<Rightarrow> Some (device port))"
  by (induction ports) auto

text \<open>
  Claim C1, at a port of a CP210x adapter as macOS names it: the device path contains
  the configured keyword \<^verbatim>\<open>SLAB\<close>, letter for letter and so also without regard to
  case, and \<^verbatim>\<open>find_daisy_port\<close> returns \<open>None\<close> instead of the device path. The
  keyword is written in capitals and tested against lowercased text, where it never
  occurs (\<open>SLAB_never_in_lower\<close>).
\<close>

theorem find_daisy_port_misses_SLAB:
  "py_in ''SLAB'' ''/dev/cu.SLAB_USBtoUART''
   \<and> mentions_keyword
       \<lparr>device = ''/dev/cu.SLAB_USBtoUART'',
        description = ''CP2102 USB to UART Bridge Controller''\<rparr>
   \<and> find_daisy_port
       [\<lparr>device = ''/dev/cu.SLAB_USBtoUART'',
         description = ''CP2102 USB to UART Bridge Controller''\<rparr>] = None"
  by code_simp

subsection \<open>The tolerant decoder\<close>

declare decode_utf8.simps(2) [simp del]

lemma isl_emit [simp]: "isl (emit c r) = isl r"
  by (cases r) (simp_all add: emit_def)

lemma emit_Inr [simp]: "emit c (Inr t) = Inr (c # t)"
  by (simp add: emit_def)

lemma emit_Inr_iff: "emit c r = Inr t \<longleftrightarrow> (\<exists>t0. r = Inr t0 \<and> t = c # t0)"
  by (cases r) (auto simp: emit_def)

lemma on_error_Ignore [simp]: "on_error Ignore r = r"
  by (simp add: on_error_def)

lemma on_error_Strict [simp]: "on_error Strict r = Inl UnicodeDecodeError"
  by (simp add: on_error_def)

lemma decode_one:
  "b0 < 0x80 \<Longrightarrow> decode_utf8 h (b0 # bs) = emit (unat b0) (decode_utf8 h bs)"
  by (simp add: decode_utf8.simps(2))

lemma decode_invalid_start:
  "\<not> b0 < 0x80 \<Longrightarrow> b0 < 0xC2 \<or> 0xF5 \<le> b0
     \<Longrightarrow> decode_utf8 h (b0 # bs) = on_error h (decode_utf8 h bs)"
  by (simp add: decode_utf8.simps(2))

lemma decode_lead_end:
  "\<not> b0 < 0x80 \<Longrightarrow> \<not> (b0 < 0xC2 \<or> 0xF5 \<le> b0)
     \<Longrightarrow> decode_utf8 h [b0] = on_error h (Inr [])"
  by (simp add: decode_utf8.simps(2))

lemma decode_two:
  "\<not> b0 < 0x80 \<Longrightarrow> \<not> (b0 < 0xC2 \<or> 0xF5 \<le> b0) \<Longrightarrow> b0 < 0xE0
     \<Longrightarrow> decode_utf8 h (b0 # b1 # r1) =
           (if is_continuation b1 then emit (code_point2 b0 b1) (decode_utf8 h r1)
            else on_error h (decode_utf8 h (b1 # r1)))"
  by (simp add: decode_utf8.simps(2) [of h b0])

lemma decode_three:
  "\<not> b0 < 0x80 \<Longrightarrow> \<not> (b0 < 0xC2 \<or> 0xF5 \<le> b0) \<Longrightarrow> \<not> b0 < 0xE0 \<Longrightarrow> b0 < 0xF0
     \<Longrightarrow> decode_utf8 h (b0 # b1 # r1) =
           (if \<not> second_of_three b0 b1 then on_error h (decode_utf8 h (b1 # r1))
            else
              (case r1 of
                 [] \<Rightarrow> on_error h (Inr [])
               | b2 # r2 \<Rightarrow>
                   if is_continuation b2 then emit (code_point3 b0 b1 b2) (decode_utf8 h r2)
                   else on_error h (decode_utf8 h r1)))"
  by (simp add: decode_utf8.simps(2) [of h b0])

lemma decode_four:
  "\<not> b0 < 0x80 \<Longrightarrow> \<not> (b0 < 0xC2 \<or> 0xF5 \<le> b0) \<Longrightarrow> \<not> b0 < 0xE0 \<Longrightarrow> \<not> b0 < 0xF0
     \<Longrightarrow> decode_utf8 h (b0 # b1 # r1) =
           (if \<not> second_of_four b0 b1 then on_error h (decode_utf8 h (b1 # r1))
            else
              (case r1 of
                 [] \<Rightarrow> on_error h (Inr [])
               | b2 # r2 \<Rightarrow>
                   if \<not> is_continuation b2 then on_error h (decode_utf8 h r1)
                   else
                     (case r2 of
                        [] \<Rightarrow> on_error h (Inr [])
                      | b3 # r3 \<Rightarrow>
                          if is_continuation b3
                          then emit (code_point4 b0 b1 b2 b3) (decode_utf8 h r3)
                          else on_error h (decode_utf8 h r2))))"
  by (simp add: decode_utf8.simps(2) [of h b0])

lemma decode_ignore_total: "\<exists>t. decode_utf8 Ignore bs = Inr t"
proof (induction "length bs" arbitrary: bs rule: less_induct)
  case less
  then have IH: "\<And>r. length r < length bs \<Longrightarrow> \<not> isl (decode_utf8 Ignore r)"
    by (metis sum.disc(2))
  have "\<not> isl (decode_utf8 Ignore bs)"
  proof (cases bs)
    case Nil
    then show ?thesis by simp
  next
    case (Cons b0 r0)
    show ?thesis
    proof (cases r0)
      case Nil
      with Cons show ?thesis
        by (simp add: decode_utf8.simps(2))
    next
      case r0: (Cons b1 r1)
      consider (one) "b0 < 0x80"
        | (bad) "\<not> b0 < 0x80" "b0 < 0xC2 \<or> 0xF5 \<le> b0"
        | (two) "\<not> b0 < 0x80" "\<not> (b0 < 0xC2 \<or> 0xF5 \<le> b0)" "b0 < 0xE0"
        | (three) "\<not> b0 < 0x80" "\<not> (b0 < 0xC2 \<or> 0xF5 \<le> b0)" "\<not> b0 < 0xE0" "b0 < 0xF0"
        | (four) "\<not> b0 < 0x80" "\<not> (b0 < 0xC2 \<or> 0xF5 \<le> b0)" "\<not> b0 < 0xE0" "\<not> b0 < 0xF0"
        by blast
      then show ?thesis
      proof cases
        case one
        then show ?thesis using Cons IH by (simp add: decode_one)
      next
        case bad
        then show ?thesis using Cons IH by (simp add: decode_invalid_start)
      next
        case two
        then show ?thesis using Cons r0 IH by (simp add: decode_two)
      next
        case three
        then show ?thesis using Cons r0 IH by (simp add: decode_three split: list.splits)
      next
        case four
        then show ?thesis using Cons r0 IH by (simp add: decode_four split: list.splits)
      qed
    qed
  qed
  then show ?case by (cases "decode_utf8 Ignore bs") simp_all
qed


lemma valid_single: "valid_utf8 [b] \<longleftrightarrow> b < 0x80"
  by (simp add: valid_utf8_def decode_utf8.simps(2))

lemma strict_start_not_continuation:
  assumes "decode_utf8 Strict (b # r) = Inr t"
  shows "\<not> is_continuation b"
proof
  assume c: "is_continuation b"
  then have "\<not> b < 0x80" and "b < 0xC2"
    by (simp_all add: is_continuation_def word_less_nat_alt word_le_nat_alt)
  then have "decode_utf8 Strict (b # r) = Inl UnicodeDecodeError"
    by (simp add: decode_invalid_start)
  with assms show False by simp
qed

lemma strict_prefix:
  assumes rest: "decode_utf8 Ignore rest = Inr t'"
  shows "decode_utf8 Strict v = Inr t \<Longrightarrow> decode_utf8 Ignore (v @ rest) = Inr (t @ t')"
proof (induction "length v" arbitrary: v t rule: less_induct)
  case less
  note IH = less.hyps
  show ?case
  proof (cases v)
    case Nil
    with less.prems rest show ?thesis by simp
  next
    case (Cons b0 r0)
    consider (one) "b0 < 0x80"
      | (bad) "\<not> b0 < 0x80" "b0 < 0xC2 \<or> 0xF5 \<le> b0"
      | (two) "\<not> b0 < 0x80" "\<not> (b0 < 0xC2 \<or> 0xF5 \<le> b0)" "b0 < 0xE0"
      | (three) "\<not> b0 < 0x80" "\<not> (b0 < 0xC2 \<or> 0xF5 \<le> b0)" "\<not> b0 < 0xE0" "b0 < 0xF0"
      | (four) "\<not> b0 < 0x80" "\<not> (b0 < 0xC2 \<or> 0xF5 \<le> b0)" "\<not> b0 < 0xE0" "\<not> b0 < 0xF0"
      by blast
    then show ?thesis
    proof cases
      case one
      with less.prems Cons obtain t0 where t0: "decode_utf8 Strict r0 = Inr t0" "t = unat b0 # t0"
        by (auto simp: decode_one emit_Inr_iff)
      from IH [of r0 t0] t0 Cons have "decode_utf8 Ignore (r0 @ rest) = Inr (t0 @ t')" by simp
      with one Cons t0 show ?thesis by (simp add: decode_one)
    next
      case bad
      with less.prems Cons show ?thesis by (simp add: decode_invalid_start)
    next
      case two
      from two less.prems Cons obtain b1 r1 where r0: "r0 = b1 # r1"
        by (cases r0) (simp_all add: decode_lead_end)
      from two less.prems Cons r0 obtain t0 where
        t0: "is_continuation b1" "decode_utf8 Strict r1 = Inr t0" "t = code_point2 b0 b1 # t0"
        by (auto simp: decode_two emit_Inr_iff split: if_splits)
      from IH [of r1 t0] t0 Cons r0 have "decode_utf8 Ignore (r1 @ rest) = Inr (t0 @ t')" by simp
      with two Cons r0 t0 show ?thesis by (simp add: decode_two)
    next
      case three
      from three less.prems Cons obtain b1 r1 where r0: "r0 = b1 # r1"
        by (cases r0) (simp_all add: decode_lead_end)
      from three less.prems Cons r0 have s: "second_of_three b0 b1"
        by (auto simp: decode_three split: if_splits)
      with three less.prems Cons r0 obtain b2 r2 where r1: "r1 = b2 # r2"
        by (cases r1) (simp_all add: decode_three)
      from three less.prems Cons r0 r1 s obtain t0 where
        t0: "is_continuation b2" "decode_utf8 Strict r2 = Inr t0" "t = code_point3 b0 b1 b2 # t0"
        by (auto simp: decode_three emit_Inr_iff split: if_splits)
      from IH [of r2 t0] t0 Cons r0 r1 have "decode_utf8 Ignore (r2 @ rest) = Inr (t0 @ t')" by simp
      with three Cons r0 r1 s t0 show ?thesis by (simp add: decode_three)
    next
      case four
      from four less.prems Cons obtain b1 r1 where r0: "r0 = b1 # r1"
        by (cases r0) (simp_all add: decode_lead_end)
      from four less.prems Cons r0 have s: "second_of_four b0 b1"
        by (auto simp: decode_four split: if_splits)
      with four less.prems Cons r0 obtain b2 r2 where r1: "r1 = b2 # r2"
        by (cases r1) (simp_all add: decode_four)
      from four less.prems Cons r0 r1 s have c2: "is_continuation b2"
        by (auto simp: decode_four split: if_splits)
      with four less.prems Cons r0 r1 s obtain b3 r3 where r2: "r2 = b3 # r3"
        by (cases r2) (simp_all add: decode_four)
      from four less.prems Cons r0 r1 r2 s c2 obtain t0 where
        t0: "is_continuation b3" "decode_utf8 Strict r3 = Inr t0"
            "t = code_point4 b0 b1 b2 b3 # t0"
        by (auto simp: decode_four emit_Inr_iff split: if_splits)
      from IH [of r3 t0] t0 Cons r0 r1 r2 have "decode_utf8 Ignore (r3 @ rest) = Inr (t0 @ t')"
        by simp
      with four Cons r0 r1 r2 s c2 t0 show ?thesis by (simp add: decode_four)
    qed
  qed
qed

lemma strict_imp_ignore: "decode_utf8 Strict v = Inr t \<Longrightarrow> decode_utf8 Ignore v = Inr t"
  using strict_prefix [of "[]" "[]" v t] by simp

lemma ignore_skips_invalid_byte:
  assumes "\<not> b < 0x80" and "decode_utf8 Strict v = Inr t"
  shows "decode_utf8 Ignore (b # v) = decode_utf8 Ignore v"
proof (cases v)
  case Nil
  then show ?thesis using assms(1) by (simp add: decode_utf8.simps(2))
next
  case (Cons b1 r1)
  with assms(2) have "\<not> is_continuation b1"
    using strict_start_not_continuation by blast
  then show ?thesis using assms(1) Cons
    by (simp add: decode_utf8.simps(2) [of Ignore b] second_of_three_def second_of_four_def)
qed

text \<open>
  Claim C8. Decoding with \<^verbatim>\<open>errors='ignore'\<close> is tolerant: when the data is valid
  UTF-8 text, then one byte that is not valid on its own, then valid UTF-8 text again,
  the result is the text before followed by the text after, the invalid byte dropped;
  and whatever the data \<open>bs\<close>, the decode step returns a string, it never fails.
\<close>

theorem decode_ignore_drops_invalid_byte:
  assumes "decode_utf8 Strict before = Inr t1"
    and "decode_utf8 Strict after = Inr t2"
    and "\<not> valid_utf8 [b]"
  shows "decode_utf8 Ignore (before @ b # after) = Inr (t1 @ t2)
         \<and> (\<exists>t. decode_utf8 Ignore bs = Inr t)"
proof -
  from assms(3) have "\<not> b < 0x80" by (simp add: valid_single)
  then have "decode_utf8 Ignore (b # after) = decode_utf8 Ignore after"
    using assms(2) by (rule ignore_skips_invalid_byte)
  with assms(2) have "decode_utf8 Ignore (b # after) = Inr t2"
    by (simp add: strict_imp_ignore)
  then have "decode_utf8 Ignore (before @ b # after) = Inr (t1 @ t2)"
    using assms(1) by (rule strict_prefix)
  then show ?thesis using decode_ignore_total by blast
qed

theorem decode_ignore_drops_invalid_byte_witness:
  "decode_utf8 Strict [0x6F, 0x6B] = Inr [111, 107]
   \<and> decode_utf8 Strict [0xC3, 0xA9] = Inr [233]
   \<and> \<not> valid_utf8 [0xFF]
   \<and> decode_utf8 Ignore [0x6F, 0x6B, 0xFF, 0xC3, 0xA9] = Inr [111, 107, 233]"
proof -
  have a: "decode_utf8 Strict [0x6F, 0x6B] = Inr [111, 107]" by code_simp
  have b: "decode_utf8 Strict [0xC3, 0xA9] = Inr [233]" by code_simp
  have c: "\<not> valid_utf8 [0xFF]" by code_simp
  from decode_ignore_drops_invalid_byte [OF a b c] a b c show ?thesis by simp
qed

subsection \<open>Stripping and printing a line\<close>

lemma strip_whitespace:
  assumes "\<forall>c \<in> set t. py_isspace c"
  shows "strip t = []"
proof -
  from assms have 1: "dropWhile py_isspace t = []" by simp
  show ?thesis unfolding strip_def 1 by simp
qed

text \<open>
  Claim C9. A line whose decoded text is whitespace only is not printed: the state,
  and with it the output, is as before. In general the line is stripped and printed
  exactly when what is left is not empty.
\<close>

theorem read_line_whitespace_only:
  assumes "decode_utf8 Ignore bs = Inr decoded"
  shows "((\<forall>c \<in> set decoded. py_isspace c) \<longrightarrow> read_line bs s = s)
         \<and> read_line bs s =
             (if strip decoded = [] then s else s\<lparr>stdout := stdout s @ [strip decoded]\<rparr>)"
  using assms by (simp add: read_line_def strip_whitespace)

theorem read_line_whitespace_only_witness:
  "decode_utf8 Ignore [0x20, 0x09, 0x0D, 0x0A] = Inr [32, 9, 13, 10]
   \<and> py_isspace 32 \<and> py_isspace 9 \<and> py_isspace 13 \<and> py_isspace 10
   \<and> read_line [0x20, 0x09, 0x0D, 0x0A] initial = initial"
proof -
  have a: "decode_utf8 Ignore [0x20, 0x09, 0x0D, 0x0A] = Inr [32, 9, 13, 10]"
    by code_simp
  have b: "py_isspace 32 \<and> py_isspace 9 \<and> py_isspace 13 \<and> py_isspace 10"
    by (simp add: py_isspace_def)
  from read_line_whitespace_only [OF a, of initial] a b show ?thesis by simp
qed

text \<open>
  Claim C10. The handler of \<^verbatim>\<open>UnicodeDecodeError\<close> in the monitor loop is never
  entered: with \<^verbatim>\<open>errors='ignore'\<close> the decode step returns a string for every
  byte sequence, so \<^verbatim>\<open>read_line\<close> always takes the branch that strips and prints.
\<close>

theorem read_line_handler_unreachable:
  "decode_utf8 Ignore bs \<noteq> Inl UnicodeDecodeError
   \<and> (\<exists>decoded. decode_utf8 Ignore bs = Inr decoded
        \<and> read_line bs s =
            (if strip decoded \<noteq> [] then s\<lparr>stdout := stdout s @ [strip decoded]\<rparr> else s))"
proof -
  obtain decoded where "decode_utf8 Ignore bs = Inr decoded"
    using decode_ignore_total by blast
  then show ?thesis by (simp add: read_line_def)
qed

theorem read_line_handler_unreachable_witness:
  "decode_utf8 Ignore [0xE2, 0x82, 0x41, 0xFF] = Inr [65]
   \<and> stdout (read_line [0xE2, 0x82, 0x41, 0xFF] initial) = [[65]]"
proof -
  have a: "decode_utf8 Ignore [0xE2, 0x82, 0x41, 0xFF] = Inr [65]" by code_simp
  have b: "strip [65] = [65]" by code_simp
  from read_line_handler_unreachable [of "[0xE2, 0x82, 0x41, 0xFF]" initial] a b
  show ?thesis by (simp add: initial_def)
qed

subsection \<open>Printing\<close>

lemma print_eq: "print l s = s\<lparr>stdout := stdout s @ [str_of l]\<rparr>"
  by (simp add: print_def)

lemma prints_eq: "prints ls s = s\<lparr>stdout := stdout s @ map str_of ls\<rparr>"
  unfolding prints_def
  by (induction ls arbitrary: s) (simp_all add: print_def)

lemma ser_read_line: "ser (read_line bs s) = ser s"
  by (simp add: read_line_def Let_def split: sum.splits decode_error.splits)

lemma monitor_loop_ser: "monitor_loop turns s = (r, s') \<Longrightarrow> ser s' = ser s"
  by (induction turns s rule: monitor_loop.induct) (auto simp: ser_read_line)

lemma ser_banner: "ser (banner port_name s) = ser s"
  by (simp add: banner_def prints_eq)

lemma decimal_BAUD_RATE: "decimal BAUD_RATE = ''115200''"
  unfolding BAUD_RATE_def
  by (simp add: decimal.simps [of 115200] decimal.simps [of 11520] decimal.simps [of 1152]
      decimal.simps [of 115] decimal.simps [of 11] decimal.simps [of "Suc 0"] char_of_eq_iff)

subsection \<open>The ways out of the monitor\<close>

text \<open>
  With the port open, the monitor ends when a turn of the loop raises. Only the
  handler of \<^verbatim>\<open>KeyboardInterrupt\<close> calls \<^verbatim>\<open>ser.close()\<close>; after a
  \<^verbatim>\<open>SerialException\<close> or any other exception the function reaches its
  \<^verbatim>\<open>return 1\<close> with \<^verbatim>\<open>ser.is_open\<close> still true. What happens to the connection
  object after the return (the interpreter finalises it once the frame is gone, the
  operating system closes what is left when the process ends) is not part of this
  model, which stops at the return statement.
\<close>

lemma monitor_serial_ways_out:
  assumes "monitor_loop turns (banner port_name (s\<lparr>ser := Some True\<rparr>)) = (Some e, s1)"
  shows "fst (monitor_serial port_name None turns s) =
            Some (Inr (if e = KeyboardInterrupt then 0 else 1))
         \<and> ser (snd (monitor_serial port_name None turns s)) =
            Some (e \<noteq> KeyboardInterrupt)"
proof -
  from assms have "ser s1 = ser (banner port_name (s\<lparr>ser := Some True\<rparr>))"
    by (rule monitor_loop_ser)
  then have "ser s1 = Some True"
    by (simp add: ser_banner)
  with assms show ?thesis
    by (cases e) (simp_all add: monitor_serial_def prints_eq print_eq)
qed

text \<open>
  For instance, on a run where the port opens, one line is received and the next read
  raises \<^verbatim>\<open>SerialException\<close>: \<^verbatim>\<open>monitor_serial\<close> returns 1 and has not closed
  the connection itself.
\<close>

lemma monitor_serial_read_error_no_close:
  "fst (monitor_serial ''/dev/ttyACM0'' None
          [Readline [0x68, 0x69, 0x0A], Raises (SerialException ''device disconnected'')]
          initial)
     = Some (Inr 1)
   \<and> ser (snd (monitor_serial ''/dev/ttyACM0'' None
          [Readline [0x68, 0x69, 0x0A], Raises (SerialException ''device disconnected'')]
          initial))
     = Some True"
  by (simp add: monitor_serial_def prints_eq ser_read_line ser_banner)

text \<open>
  An exception leaves \<^verbatim>\<open>monitor_serial\<close> uncaught in exactly one case: the Ctrl-C
  arrives while \<^verbatim>\<open>serial.Serial(...)\<close> is opening the port. The handler then reads
  \<^verbatim>\<open>ser.is_open\<close> with \<^verbatim>\<open>ser\<close> unbound.
\<close>

lemma monitor_serial_uncaught_iff:
  "fst (monitor_serial port_name ope turns s) = Some (Inl UnboundLocalError)
     \<longleftrightarrow> ope = Some KeyboardInterrupt"
proof (cases ope)
  case None
  obtain r s1 where l: "monitor_loop turns (banner port_name (s\<lparr>ser := Some True\<rparr>)) = (r, s1)"
    by (cases "monitor_loop turns (banner port_name (s\<lparr>ser := Some True\<rparr>))")
  show ?thesis
  proof (cases r)
    case None
    with l \<open>ope = None\<close> show ?thesis by (simp add: monitor_serial_def)
  next
    case (Some e)
    with l monitor_serial_ways_out [of turns port_name s e s1] \<open>ope = None\<close>
    show ?thesis by simp
  qed
next
  case (Some e)
  then show ?thesis
    by (cases e) (simp_all add: monitor_serial_def prints_eq print_eq)
qed

text \<open>
  Claim C3, on the run \<^verbatim>\<open>monitor_serial.py /dev/ttyACM0\<close> where the user presses
  Ctrl-C while the port is being opened: the program does not end with an exit code,
  \<^verbatim>\<open>UnboundLocalError\<close> propagates out of \<^verbatim>\<open>main\<close>.
\<close>

theorem main_interrupt_while_opening_uncaught:
  "fst (main ''monitor_serial.py'' [''/dev/ttyACM0'']
          \<lparr>first_scan = [], second_scan = [],
           port_opening = Some KeyboardInterrupt, loop_turns = []\<rparr>)
     = Some (Inl UnboundLocalError)"
  by (simp add: main_def monitor_serial_def initial_def print_eq)

subsection \<open>The program's failure exits\<close>

text \<open>
  Claim C5. Started with a port argument that cannot be opened
  (\<^verbatim>\<open>serial.Serial\<close> raises \<^verbatim>\<open>SerialException\<close>), the program prints the
  connection error with its checklist and nothing else, returns 1, and has made no
  port enumeration (so no auto-detection either). Arguments after the first are not
  looked at.
\<close>

theorem main_explicit_port_open_failure:
  assumes "port_opening w = Some (SerialException msg)"
  shows "main prog (port # others) w =
           (Some (Inr 1),
            \<lparr>stdout = map str_of
               [''Error opening serial port: '' @ msg,
                newline # ''Make sure:'',
                ''  1. Daisy Seed is connected via USB'',
                ''  2. Daisy Seed is NOT in bootloader/DFU mode'',
                ''  3. No other program is using the serial port''],
             ser = None,
             enumerations = 0\<rparr>)"
  using assms by (simp add: main_def monitor_serial_def initial_def prints_eq)

theorem main_explicit_port_open_failure_witness:
  "main ''monitor_serial.py'' [''/dev/ttyFAKE'']
     \<lparr>first_scan = [], second_scan = [],
      port_opening = Some (SerialException ''could not open port /dev/ttyFAKE''),
      loop_turns = []\<rparr> =
     (Some (Inr 1),
      \<lparr>stdout = map str_of
         [''Error opening serial port: could not open port /dev/ttyFAKE'',
          newline # ''Make sure:'',
          ''  1. Daisy Seed is connected via USB'',
          ''  2. Daisy Seed is NOT in bootloader/DFU mode'',
          ''  3. No other program is using the serial port''],
       ser = None,
       enumerations = 0\<rparr>)"
  using main_explicit_port_open_failure
    [of "\<lparr>first_scan = [], second_scan = [],
          port_opening = Some (SerialException ''could not open port /dev/ttyFAKE''),
          loop_turns = []\<rparr>"
        "''could not open port /dev/ttyFAKE''" "''monitor_serial.py''" "''/dev/ttyFAKE''" "[]"]
  by simp

text \<open>
  Claim C6. Started without an argument on a machine whose enumeration is empty (both
  times the script asks), the program prints the search and the empty port table, then
  the message that no serial ports were found and the checklist, and returns 1.
\<close>

theorem main_no_ports:
  assumes "first_scan w = []" and "second_scan w = []"
  shows "main prog [] w =
           (Some (Inr 1),
            \<lparr>stdout = map str_of
               [''Searching for Daisy Seed...'',
                ''Could not auto-detect Daisy Seed port.'',
                newline # ''Available serial ports:'',
                replicate 60 CHR ''-'',
                replicate 60 CHR ''-'',
                newline # ''No serial ports found!'',
                newline # ''Make sure:'',
                ''  1. Daisy Seed is connected via USB'',
                ''  2. Daisy Seed is NOT in bootloader/DFU mode'',
                ''  3. Daisy Seed firmware is running''],
             ser = None,
             enumerations = 2\<rparr>)"
  using assms
  by (simp add: main_def not_detected_def list_available_ports_def initial_def prints_eq print_eq)

theorem main_no_ports_witness:
  "main ''monitor_serial.py'' []
     \<lparr>first_scan = [], second_scan = [], port_opening = None, loop_turns = []\<rparr> =
     (Some (Inr 1),
      \<lparr>stdout = map str_of
         [''Searching for Daisy Seed...'',
          ''Could not auto-detect Daisy Seed port.'',
          newline # ''Available serial ports:'',
          replicate 60 CHR ''-'',
          replicate 60 CHR ''-'',
          newline # ''No serial ports found!'',
          newline # ''Make sure:'',
          ''  1. Daisy Seed is connected via USB'',
          ''  2. Daisy Seed is NOT in bootloader/DFU mode'',
          ''  3. Daisy Seed firmware is running''],
       ser = None,
       enumerations = 2\<rparr>)"
  using main_no_ports
    [of "\<lparr>first_scan = [], second_scan = [], port_opening = None, loop_turns = []\<rparr>"
        "''monitor_serial.py''"]
  by simp

text \<open>
  Claim C7. Started without an argument, when auto-detection finds no port and the
  enumeration made for the listing is not empty, the program prints the port table and
  the usage hint whose example names the device path of the first port of that
  enumeration, and returns 1. The table is a heading, a rule of 60 dashes, one row per
  port in enumeration order, and a second rule; a row is two spaces, the device path
  padded with spaces to 20 characters (longer paths are not cut), \<^verbatim>\<open> - \<close> and the
  description. On a machine whose ports do not change during the run the two
  enumerations are the same list.
\<close>

theorem main_no_match_lists_ports:
  assumes "find_daisy_port (first_scan w) = None" and "second_scan w = port # ports"
  shows "main prog [] w =
           (Some (Inr 1),
            \<lparr>stdout = map str_of
               ([''Searching for Daisy Seed...'',
                 ''Could not auto-detect Daisy Seed port.'',
                 newline # ''Available serial ports:'',
                 replicate 60 CHR ''-'']
                @ map (\<lambda>p. ''  '' @ device p
                            @ replicate (20 - length (device p)) CHR '' ''
                            @ '' - '' @ description p)
                    (port # ports)
                @ [replicate 60 CHR ''-'',
                   newline # ''Please specify the port manually:'',
                   ''  python3 '' @ prog @ '' <port_name>'',
                   newline # ''Example:'',
                   ''  python3 '' @ prog @ '' '' @ device port]),
             ser = None,
             enumerations = 2\<rparr>)"
proof -
  have rows: "map port_row (port # ports) =
                map (\<lambda>p. ''  '' @ device p
                          @ replicate (20 - length (device p)) CHR '' ''
                          @ '' - '' @ description p)
                  (port # ports)"
    by (simp add: port_row_def ljust_def)
  from assms have "main prog [] w =
           (Some (Inr 1),
            \<lparr>stdout = map str_of
               ([''Searching for Daisy Seed...'',
                 ''Could not auto-detect Daisy Seed port.'',
                 newline # ''Available serial ports:'',
                 replicate 60 CHR ''-'']
                @ map port_row (port # ports)
                @ [replicate 60 CHR ''-'',
                   newline # ''Please specify the port manually:'',
                   ''  python3 '' @ prog @ '' <port_name>'',
                   newline # ''Example:'',
                   ''  python3 '' @ prog @ '' '' @ device port]),
             ser = None,
             enumerations = 2\<rparr>)"
    by (simp add: main_def not_detected_def list_available_ports_def initial_def
        prints_eq print_eq)
  then show ?thesis
    by (simp only: rows)
qed

theorem main_no_match_lists_ports_witness:
  "find_daisy_port [\<lparr>device = ''/dev/ttyS0'', description = ''n/a''\<rparr>] = None
   \<and> main ''monitor_serial.py'' []
       \<lparr>first_scan = [\<lparr>device = ''/dev/ttyS0'', description = ''n/a''\<rparr>],
        second_scan = [\<lparr>device = ''/dev/ttyS0'', description = ''n/a''\<rparr>],
        port_opening = None, loop_turns = []\<rparr> =
       (Some (Inr 1),
        \<lparr>stdout = map str_of
           [''Searching for Daisy Seed...'',
            ''Could not auto-detect Daisy Seed port.'',
            newline # ''Available serial ports:'',
            replicate 60 CHR ''-'',
            ''  /dev/ttyS0           - n/a'',
            replicate 60 CHR ''-'',
            newline # ''Please specify the port manually:'',
            ''  python3 monitor_serial.py <port_name>'',
            newline # ''Example:'',
            ''  python3 monitor_serial.py /dev/ttyS0''],
         ser = None,
         enumerations = 2\<rparr>)"
proof -
  have a: "find_daisy_port [\<lparr>device = ''/dev/ttyS0'', description = ''n/a''\<rparr>] = None"
    by code_simp
  have pad: "replicate (20 - length ''/dev/ttyS0'') CHR '' '' = ''          ''"
    by code_simp
  from a pad
    main_no_match_lists_ports
      [of "\<lparr>first_scan = [\<lparr>device = ''/dev/ttyS0'', description = ''n/a''\<rparr>],
            second_scan = [\<lparr>device = ''/dev/ttyS0'', description = ''n/a''\<rparr>],
            port_opening = None, loop_turns = []\<rparr>"
          "\<lparr>device = ''/dev/ttyS0'', description = ''n/a''\<rparr>" "[]" "''monitor_serial.py''"]
  show ?thesis by simp
qed

text \<open>The row of the table for that port: the device path padded to 20 characters.\<close>

lemma port_row_example:
  "port_row \<lparr>device = ''/dev/ttyS0'', description = ''n/a''\<rparr> =
     ''  /dev/ttyS0           - n/a''"
  by code_simp

end
